theory Spec2Isabelle
  imports Complex_Main "HOL-Library.Sublist"
begin

section \<open>JavaScript values used by the services\<close>

text \<open>
  A value caught by a \<^verbatim>\<open>catch\<close> clause is either an \<^verbatim>\<open>Error\<close> carrying a
  message or some other thrown value. Every catch clause of the services computes
  \<^verbatim>\<open>error instanceof Error ? error.message : 'Unknown error'\<close>.
\<close>

datatype thrown = Error string | NonError

definition error_message :: "thrown \<Rightarrow> string" where
  "error_message e = (case e of Error m \<Rightarrow> m | NonError \<Rightarrow> ''Unknown error'')"

text \<open>Template literals render a non-negative integer in decimal.\<close>

fun show_nat :: "nat \<Rightarrow> string" where
  "show_nat n =
     (if n < 10 then [''0123456789'' ! n]
      else show_nat (n div 10) @ [''0123456789'' ! (n mod 10)])"

declare show_nat.simps [simp del]

text \<open>\<^verbatim>\<open>xs[i]\<close> on a JavaScript array: \<^verbatim>\<open>undefined\<close> out of range.\<close>

definition elem_at :: "'a list \<Rightarrow> nat \<Rightarrow> 'a option" where
  "elem_at xs i = (if i < length xs then Some (xs ! i) else None)"

text \<open>\<^verbatim>\<open>parts.join(sep)\<close>.\<close>

fun join :: "string list \<Rightarrow> string \<Rightarrow> string" where
  "join [] sep = []"
| "join [p] sep = p"
| "join (p # q # ps) sep = p @ sep @ join (q # ps) sep"

section \<open>chroma-service.ts: the vector store client\<close>

type_synonym metadata = "(string \<times> string) list"

record VectorDocument =
  doc_id :: string
  doc_content :: string
  doc_metadata :: metadata

record SearchResult =
  document :: VectorDocument
  score :: real

text \<open>
  What \<^verbatim>\<open>collection.query\<close> resolves to: one inner array per query embedding.
  \<^verbatim>\<open>documents\<close>, \<^verbatim>\<open>metadatas\<close> and \<^verbatim>\<open>distances\<close> may be null, and so may their
  entries; \<^verbatim>\<open>ids\<close> is always an array of arrays of strings.
\<close>

record QueryResponse =
  ids :: "string list list"
  documents :: "string option list list option"
  metadatas :: "metadata option list list option"
  distances :: "real option list list option"

text \<open>
  The store as \<^verbatim>\<open>search\<close> sees it: for a query text, \<^verbatim>\<open>nResults\<close> and an optional
  \<^verbatim>\<open>where\<close> clause, the awaited steps (\<^verbatim>\<open>ensureInitialized\<close>, \<^verbatim>\<open>getCollection\<close>,
  \<^verbatim>\<open>embedQuery\<close>, \<^verbatim>\<open>collection.query\<close>) either throw or resolve to a response.
\<close>

type_synonym store = "string \<Rightarrow> int \<Rightarrow> metadata option \<Rightarrow> thrown + QueryResponse"

text \<open>The calls made on the external collaborators, in the order they were made.\<close>

record world =
  searches :: "(string \<times> int) list"
  model_streams :: "(string \<times> string) list"

definition fresh :: world where
  "fresh = \<lparr>searches = [], model_streams = []\<rparr>"

text \<open>\<^verbatim>\<open>results.documents[0] || []\<close>: the first inner array, or the empty one.\<close>

definition first_or_empty :: "'a list list \<Rightarrow> 'a list" where
  "first_or_empty xss = (case xss of [] \<Rightarrow> [] | xs # _ \<Rightarrow> xs)"

text \<open>The callback of \<^verbatim>\<open>documents.map\<close> in \<^verbatim>\<open>search\<close>; \<^verbatim>\<open>None\<close> is its \<^verbatim>\<open>null\<close>.\<close>

definition to_result ::
  "string list \<Rightarrow> metadata option list \<Rightarrow> real option list \<Rightarrow> nat \<times> string option
     \<Rightarrow> SearchResult option" where
  "to_result idl ms ds p =
     (case p of (index, content) \<Rightarrow>
        (case content of
           None \<Rightarrow> None
         | Some c \<Rightarrow>
             if c = [] then None
             else Some \<lparr>document =
                   \<lparr>doc_id = (case elem_at idl index of
                                Some i \<Rightarrow> if i = [] then ''unknown_'' @ show_nat index else i
                              | None \<Rightarrow> ''unknown_'' @ show_nat index),
                    doc_content = c,
                    doc_metadata = (case elem_at ms index of Some (Some m) \<Rightarrow> m | _ \<Rightarrow> [])\<rparr>,
                  score = 1 - (case elem_at ds index of Some (Some d) \<Rightarrow> d | _ \<Rightarrow> 0)\<rparr>))"

definition where_clause :: "metadata option \<Rightarrow> metadata option" where
  "where_clause flt =
     (case flt of None \<Rightarrow> None | Some f \<Rightarrow> if length f > 0 then Some f else None)"

definition search ::
  "store \<Rightarrow> string \<Rightarrow> int \<Rightarrow> metadata option \<Rightarrow> world
     \<Rightarrow> (thrown + SearchResult list) \<times> world" where
  "search st query limit flt w =
     (let w' = w\<lparr>searches := searches w @ [(query, limit)]\<rparr> in
      case st query limit (where_clause flt) of
        Inl error \<Rightarrow> (Inl (Error (''Search failed: '' @ error_message error)), w')
      | Inr results \<Rightarrow>
          (case (documents results, metadatas results, distances results) of
             (Some docs, Some metas, Some dists) \<Rightarrow>
               (Inr (List.map_filter (to_result (first_or_empty (ids results))
                                        (first_or_empty metas) (first_or_empty dists))
                       (enumerate 0 (first_or_empty docs))), w')
           | _ \<Rightarrow> (Inr [], w')))"

section \<open>chroma-service.ts: lazy initialization under concurrent first use\<close>

text \<open>
  JavaScript runs each piece of code between two \<^verbatim>\<open>await\<close>s to completion, and the
  requests in flight interleave at the \<^verbatim>\<open>await\<close>s only. The state is that of one
  \<^verbatim>\<open>ChromaService\<close> object (the chat routes and the document routes each construct
  their own), used by the requests that go through it: the two
  fields \<^verbatim>\<open>initialized\<close> and \<^verbatim>\<open>initializationPromise\<close>; a promise is a reference
  into \<open>promises\<close>, and \<open>bodies\<close> records where the invocation of \<^verbatim>\<open>initialize\<close>
  behind each promise is suspended. \<open>heartbeats\<close> and \<open>creations\<close> count the calls of
  \<^verbatim>\<open>client.heartbeat\<close> and \<^verbatim>\<open>client.createCollection\<close>.
\<close>

datatype settled = Pending | Fulfilled | Rejected thrown

datatype init_pc = AwaitHeartbeat | AwaitListCollections | AwaitCreateCollection | Returned

datatype caller = NotCalled | AwaitOwn nat | AwaitShared nat | Resolved | Threw thrown


record service =
  initialized :: bool
  initializationPromise :: "nat option"
  promises :: "settled list"
  bodies :: "init_pc list"
  callers :: "caller list"
  heartbeats :: nat
  creations :: nat











section \<open>llm-service.ts: context retrieval and prompt assembly\<close>

definition context_part :: "nat \<times> SearchResult \<Rightarrow> string" where
  "context_part p =
     (case p of (index, result) \<Rightarrow>
        ''[Document '' @ show_nat (index + 1) @ '']\<newline>'' @ doc_content (document result))"

definition separator :: string where
  "separator = ''\<newline>\<newline>---\<newline>\<newline>''"

definition format_context :: "SearchResult list \<Rightarrow> string" where
  "format_context results =
     (if length results = 0 then []
      else join (map context_part (enumerate 0 results)) separator)"

definition retrieveContext :: "store \<Rightarrow> string \<Rightarrow> int \<Rightarrow> world \<Rightarrow> string \<times> world" where
  "retrieveContext st query limit w =
     (case search st query limit None w of
        (Inr results, w') \<Rightarrow> (format_context results, w')
      | (Inl error, w') \<Rightarrow> ([], w'))"

definition fallback_sentence :: string where
  "fallback_sentence =
     ''I don't have enough information in your documents to answer this question.''"

definition buildRagPrompt :: "string \<Rightarrow> string \<Rightarrow> string" where
  "buildRagPrompt userMessage context =
     (if context = [] then userMessage
      else ''Context information from documents:\<newline>'' @ context
           @ ''\<newline>\<newline>---\<newline>\<newline>Based on the context above, please answer the following question. If the context doesn't contain relevant information, say \"''
           @ fallback_sentence @ ''\"\<newline>\<newline>Question: '' @ userMessage)"

section \<open>deepseek-agent.ts: the chat agent\<close>

text \<open>
  What \<^verbatim>\<open>model.stream\<close> of the hosted backend does for a system message and a human
  message: the \<^verbatim>\<open>content\<close> of each chunk it delivers, in order, and the value it
  throws, if any, when opening the stream (then no chunk) or after the chunks.
\<close>

record upstream =
  chunks :: "string list"
  failure :: "thrown option"

type_synonym chat_model = "string \<Rightarrow> string \<Rightarrow> upstream"

text \<open>The constructor's \<^verbatim>\<open>config.systemPrompt || 'You are a helpful AI assistant.'\<close>.\<close>

definition DeepSeekAgent :: "string option \<Rightarrow> string" where
  "DeepSeekAgent systemPrompt =
     (case systemPrompt of
        None \<Rightarrow> ''You are a helpful AI assistant.''
      | Some p \<Rightarrow> if p = [] then ''You are a helpful AI assistant.'' else p)"

text \<open>
  The \<^verbatim>\<open>for await\<close> loop of \<^verbatim>\<open>stream\<close>: \<^verbatim>\<open>onToken\<close> runs on every chunk whose
  content is truthy; \<open>s\<close> is the state the callback closes over.
\<close>

fun for_await :: "(string \<Rightarrow> 's \<Rightarrow> 's) \<Rightarrow> string list \<Rightarrow> 's \<Rightarrow> 's" where
  "for_await onToken [] s = s"
| "for_await onToken (c # cs) s = for_await onToken cs (if c \<noteq> [] then onToken c s else s)"

definition agent_stream ::
  "chat_model \<Rightarrow> string \<Rightarrow> string \<Rightarrow> (string \<Rightarrow> 's \<Rightarrow> 's) \<Rightarrow> 's \<Rightarrow> world
     \<Rightarrow> (thrown option \<times> 's) \<times> world" where
  "agent_stream m systemPrompt prompt onToken s w =
     (let w' = w\<lparr>model_streams := model_streams w @ [(systemPrompt, prompt)]\<rparr>;
          up = m systemPrompt prompt;
          s' = for_await onToken (chunks up) s
      in case failure up of
           None \<Rightarrow> ((None, s'), w')
         | Some error \<Rightarrow>
             ((Some (Error (''DeepSeek API error: '' @ error_message error)), s'), w'))"

section \<open>types/chat.ts and JSON.stringify\<close>

record ChatMessage =
  role :: string
  content :: string

text \<open>
  Modelled from the spec: the \<^verbatim>\<open>ChatRequest\<close> type that \<^verbatim>\<open>streamChat\<close> reads
  \<^verbatim>\<open>useRag\<close> and \<^verbatim>\<open>ragLimit\<close> from is not among the sources (the schema there
  has neither field); the spec gives \<^verbatim>\<open>useRag: bool\<close> and \<^verbatim>\<open>ragLimit: integer\<close>,
  both optional. \<^verbatim>\<open>None\<close> is an absent field.
\<close>

record ChatRequest =
  messages :: "ChatMessage list"
  model :: "string option"
  temperature :: "real option"
  maxTokens :: "int option"
  useRag :: "bool option"
  ragLimit :: "int option"

record Choice =
  index :: nat
  message :: ChatMessage
  finishReason :: "string option"

record ChatResponse =
  id_resp :: string
  object :: string
  created :: nat
  model_resp :: string
  choices :: "Choice list"

text \<open>
  \<^verbatim>\<open>JSON.stringify\<close> on a \<^verbatim>\<open>ChatResponse\<close>: the fields in insertion order, no white
  space, strings quoted with the escapes of ECMAScript's QuoteJSONString.
\<close>

definition quote_char :: "char \<Rightarrow> string" where
  "quote_char c =
     (let n = (of_char c :: nat) in
      if n = 8 then [CHR 0x5C, CHR ''b'']
      else if n = 9 then [CHR 0x5C, CHR ''t'']
      else if n = 10 then [CHR 0x5C, CHR ''n'']
      else if n = 12 then [CHR 0x5C, CHR ''f'']
      else if n = 13 then [CHR 0x5C, CHR ''r'']
      else if n = 34 then [CHR 0x5C, CHR 0x22]
      else if n = 92 then [CHR 0x5C, CHR 0x5C]
      else if n < 32 then
        [CHR 0x5C, CHR ''u'', CHR ''0'', CHR ''0'',
         ''0123456789abcdef'' ! (n div 16), ''0123456789abcdef'' ! (n mod 16)]
      else [c])"

definition quote :: "string \<Rightarrow> string" where
  "quote s = [CHR 0x22] @ concat (map quote_char s) @ [CHR 0x22]"

definition stringify_message :: "ChatMessage \<Rightarrow> string" where
  "stringify_message m =
     ''{\"role\":'' @ quote (role m) @ '',\"content\":'' @ quote (content m) @ ''}''"

definition stringify_choice :: "Choice \<Rightarrow> string" where
  "stringify_choice c =
     ''{\"index\":'' @ show_nat (index c) @ '',\"message\":'' @ stringify_message (message c)
     @ (case finishReason c of None \<Rightarrow> [] | Some f \<Rightarrow> '',\"finishReason\":'' @ quote f)
     @ ''}''"

definition stringify :: "ChatResponse \<Rightarrow> string" where
  "stringify r =
     ''{\"id\":'' @ quote (id_resp r) @ '',\"object\":'' @ quote (object r)
     @ '',\"created\":'' @ show_nat (created r) @ '',\"model\":'' @ quote (model_resp r)
     @ '',\"choices\":['' @ join (map stringify_choice (choices r)) '','' @ '']}''"

section \<open>llm-service.ts: streamChat\<close>

text \<open>
  What a run of the service depends on: the vector store, the chat backend, and the two
  readings of \<^verbatim>\<open>Date.now()\<close> (milliseconds) taken for \<^verbatim>\<open>id\<close> and \<^verbatim>\<open>created\<close>.
\<close>

record env =
  store :: store
  chat_model :: chat_model
  now_id :: nat
  now_created :: nat

text \<open>What an async generator did: the values it yielded, then the value it threw, if any.\<close>

record generated =
  yielded :: "string list"
  raised :: "thrown option"

text \<open>\<^verbatim>\<open>request.ragLimit || 3\<close>: an absent or zero limit is falsy.\<close>

definition ragLimit_or_3 :: "ChatRequest \<Rightarrow> int" where
  "ragLimit_or_3 request =
     (case ragLimit request of None \<Rightarrow> 3 | Some n \<Rightarrow> if n = 0 then 3 else n)"

text \<open>The envelope built after the stream has completed.\<close>

definition envelope :: "env \<Rightarrow> ChatRequest \<Rightarrow> string \<Rightarrow> ChatResponse" where
  "envelope e request fullResponse =
     \<lparr>id_resp = ''chatcmpl-'' @ show_nat (now_id e),
      object = ''chat.completion'',
      created = now_created e div 1000,
      model_resp = (case model request of
                      None \<Rightarrow> ''deepseek-chat''
                    | Some m \<Rightarrow> if m = [] then ''deepseek-chat'' else m),
      choices = [\<lparr>index = 0,
                  message = \<lparr>role = ''assistant'', content = fullResponse\<rparr>,
                  finishReason = Some ''stop''\<rparr>]\<rparr>"

text \<open>
  The prompt handed to the agent, for a non-empty message list: the content of the last
  message, augmented by the retrieved context when \<^verbatim>\<open>useRag\<close> is truthy.
\<close>

definition userMessage :: "env \<Rightarrow> ChatRequest \<Rightarrow> world \<Rightarrow> string \<times> world" where
  "userMessage e request w =
     (let question = content (last (messages request)) in
      if useRag request = Some True then
        (case retrieveContext (store e) question (ragLimit_or_3 request) w of
           (context, w') \<Rightarrow> (buildRagPrompt question context, w'))
      else (question, w))"

text \<open>
  \<^verbatim>\<open>streamChat\<close>. Reading \<^verbatim>\<open>.content\<close> of the last message of an empty list is a
  TypeError, caught like every other error of the body.
\<close>

definition streamChat :: "env \<Rightarrow> ChatRequest \<Rightarrow> world \<Rightarrow> generated \<times> world" where
  "streamChat e request w =
     (if messages request = [] then
        (\<lparr>yielded = [],
          raised = Some (Error (''LLM streaming error: ''
                     @ ''Cannot read properties of undefined (reading 'content')''))\<rparr>, w)
      else
        (case userMessage e request w of
           (prompt, w1) \<Rightarrow>
             (case agent_stream (chat_model e) (DeepSeekAgent None) prompt
                     (\<lambda>token fullResponse. fullResponse @ token) [] w1 of
                ((Some error, fullResponse), w2) \<Rightarrow>
                  (\<lparr>yielded = [],
                    raised = Some (Error (''LLM streaming error: '' @ error_message error))\<rparr>,
                   w2)
              | ((None, fullResponse), w2) \<Rightarrow>
                  (\<lparr>yielded = [stringify (envelope e request fullResponse)],
                    raised = None\<rparr>, w2))))"

section \<open>chat-routes.ts: POST /api/chat\<close>

text \<open>
  The handler writes one frame per chunk the generator yields; when the generator is
  exhausted it writes the end marker and ends the response; when the generator throws,
  the error leaves the handler (\<^verbatim>\<open>asyncHandler\<close> logs and rethrows it).
\<close>

record reply =
  written :: "string list"
  ended :: bool
  rethrown :: "thrown option"

definition frame :: "string \<Rightarrow> string" where
  "frame chunk = ''data: '' @ chunk @ ''\<newline>\<newline>''"

definition done_frame :: string where
  "done_frame = ''data: [DONE]\<newline>\<newline>''"

definition chat_handler :: "env \<Rightarrow> ChatRequest \<Rightarrow> world \<Rightarrow> reply \<times> world" where
  "chat_handler e chatRequest w =
     (case streamChat e chatRequest w of
        (g, w') \<Rightarrow>
          (case raised g of
             Some error \<Rightarrow>
               (\<lparr>written = map frame (yielded g), ended = False, rethrown = Some error\<rparr>, w')
           | None \<Rightarrow>
               (\<lparr>written = map frame (yielded g) @ [done_frame], ended = True,
                 rethrown = None\<rparr>, w')))"

section \<open>Sample collaborators and requests\<close>

definition hello_request :: ChatRequest where
  "hello_request =
     \<lparr>messages = [\<lparr>role = ''user'', content = ''Hello!''\<rparr>], model = None,
      temperature = None, maxTokens = None, useRag = None, ragLimit = None\<rparr>"

definition followup_request :: ChatRequest where
  "followup_request =
     \<lparr>messages = [\<lparr>role = ''user'', content = ''My name is Ada.''\<rparr>,
                  \<lparr>role = ''assistant'', content = ''Nice to meet you.''\<rparr>,
                  \<lparr>role = ''user'', content = ''Hello!''\<rparr>], model = None,
      temperature = None, maxTokens = None, useRag = None, ragLimit = None\<rparr>"

text \<open>A backend that delivers two tokens, and one that fails when the stream is opened.\<close>

definition two_token_model :: chat_model where
  "two_token_model systemPrompt prompt = \<lparr>chunks = [''Hel'', ''lo!''], failure = None\<rparr>"

definition timeout_model :: chat_model where
  "timeout_model systemPrompt prompt = \<lparr>chunks = [], failure = Some (Error ''timeout'')\<rparr>"

text \<open>A store that cannot be reached, and one that holds two documents.\<close>

definition down_store :: store where
  "down_store query limit flt = Inl (Error ''fetch failed'')"

definition two_doc_store :: store where
  "two_doc_store query limit flt =
     Inr \<lparr>ids = [[''doc_1'', ''doc_2'']],
          documents = Some [[Some ''Cats purr.'', Some ''Dogs bark.'']],
          metadatas = Some [[None, None]],
          distances = Some [[Some 2, Some (1 / 4)]]\<rparr>"

definition sample_env :: "store \<Rightarrow> chat_model \<Rightarrow> env" where
  "sample_env st m =
     \<lparr>store = st, chat_model = m, now_id = 1700000000123, now_created = 1700000000123\<rparr>"

definition two_results :: "SearchResult list" where
  "two_results =
     [\<lparr>document = \<lparr>doc_id = ''doc_1'', doc_content = ''Cats purr.'', doc_metadata = []\<rparr>,
       score = 3 / 4\<rparr>,
      \<lparr>document = \<lparr>doc_id = ''doc_2'', doc_content = ''Dogs bark.'', doc_metadata = []\<rparr>,
       score = 1 / 4\<rparr>]"


section \<open>Invariant and progress measure of the initialization\<close>






section \<open>Facts shared by the proofs\<close>

lemma for_await_accumulate:
  "for_await (\<lambda>token fullResponse. fullResponse @ token) cs acc = acc @ concat cs"
  by (induction cs arbitrary: acc) auto

lemma error_message_Error [simp]: "error_message (Error m) = m"
  by (simp add: error_message_def)

lemma agent_stream_result:
  "agent_stream m sp prompt (\<lambda>token fullResponse. fullResponse @ token) [] w =
     ((case failure (m sp prompt) of
         None \<Rightarrow> None
       | Some error \<Rightarrow> Some (Error (''DeepSeek API error: '' @ error_message error)),
       concat (chunks (m sp prompt))),
      w\<lparr>model_streams := model_streams w @ [(sp, prompt)]\<rparr>)"
  by (simp add: agent_stream_def for_await_accumulate Let_def split: option.split)

lemma streamChat_nonempty:
  assumes "messages request \<noteq> []"
  shows "streamChat e request w =
     (let prompt = fst (userMessage e request w);
          w1 = snd (userMessage e request w);
          up = chat_model e (DeepSeekAgent None) prompt;
          w2 = w1\<lparr>model_streams := model_streams w1 @ [(DeepSeekAgent None, prompt)]\<rparr>
      in case failure up of
           Some error \<Rightarrow>
             (\<lparr>yielded = [],
               raised = Some (Error (''LLM streaming error: '' @ ''DeepSeek API error: ''
                                       @ error_message error))\<rparr>, w2)
         | None \<Rightarrow>
             (\<lparr>yielded = [stringify (envelope e request (concat (chunks up)))],
               raised = None\<rparr>, w2))"
  using assms
  by (simp add: streamChat_def agent_stream_result Let_def split: prod.split option.split)

lemma userMessage_world:
  "snd (userMessage e request w) =
     (if useRag request = Some True
      then w\<lparr>searches := searches w
                @ [(content (last (messages request)), ragLimit_or_3 request)]\<rparr>
      else w)"
  by (simp add: userMessage_def retrieveContext_def search_def Let_def
           split: prod.split sum.split option.split)

lemmas sample_defs = sample_env_def hello_request_def followup_request_def two_token_model_def
  timeout_model_def down_store_def two_doc_store_def

lemma userMessage_prompt:
  "fst (userMessage e request w) =
     (if useRag request = Some True
      then buildRagPrompt (content (last (messages request)))
             (fst (retrieveContext (store e) (content (last (messages request)))
                     (ragLimit_or_3 request) w))
      else content (last (messages request)))"
  by (simp add: userMessage_def Let_def split: prod.split)

lemma chat_handler_reply:
  "fst (chat_handler e request w) =
     (let g = fst (streamChat e request w) in
      case raised g of
        Some error \<Rightarrow> \<lparr>written = map frame (yielded g), ended = False, rethrown = Some error\<rparr>
      | None \<Rightarrow> \<lparr>written = map frame (yielded g) @ [done_frame], ended = True,
                  rethrown = None\<rparr>)"
  by (simp add: chat_handler_def Let_def split: prod.split option.split)

lemma search_store_failure:
  "st query limit (where_clause flt) = Inl error \<Longrightarrow>
   fst (search st query limit flt w) = Inl (Error (''Search failed: '' @ error_message error))"
  by (simp add: search_def Let_def)

lemma where_clause_None [simp]: "where_clause None = None"
  by (simp add: where_clause_def)

lemma streamChat_empty_raises: "messages request = [] \<Longrightarrow> raised (fst (streamChat e request w)) \<noteq> None"
  by (simp add: streamChat_def)

lemma join_Cons_nonempty: "p \<noteq> [] \<Longrightarrow> join (p # ps) sep \<noteq> []"
  by (cases ps) auto

lemma sublist_join: "p \<in> set ps \<Longrightarrow> sublist p (join ps sep)"
proof (induction ps sep rule: join.induct)
  case (1 sep)
  then show ?case by simp
next
  case (2 p' sep)
  then show ?case by simp
next
  case (3 p' q ps sep)
  show ?case
  proof (cases "p = p'")
    case True
    then show ?thesis by (simp add: sublist_append_rightI)
  next
    case False
    with 3 have "sublist p (join (q # ps) sep)" by auto
    then obtain us vs where "join (q # ps) sep = us @ p @ vs"
      by (auto simp: sublist_def)
    then have "join (p' # q # ps) sep = (p' @ sep @ us) @ p @ vs"
      by simp
    then show ?thesis
      unfolding sublist_def by blast
  qed
qed

lemma context_part_nonempty: "context_part p \<noteq> []"
  by (cases p) (simp add: context_part_def)

lemma format_context_nonempty: "results \<noteq> [] \<Longrightarrow> format_context results \<noteq> []"
  by (cases results) (simp_all add: format_context_def enumerate_eq_zip upt_rec[of 0] join_Cons_nonempty context_part_nonempty)

lemma quote_plain:
  "quote ''Hello!'' = ''\"Hello!\"''" "quote ''assistant'' = ''\"assistant\"''"
  "quote ''stop'' = ''\"stop\"''" "quote ''deepseek-chat'' = ''\"deepseek-chat\"''"
  "quote ''chat.completion'' = ''\"chat.completion\"''"
  "quote ''chatcmpl-1700000000123'' = ''\"chatcmpl-1700000000123\"''"
  by (simp_all add: quote_def quote_char_def)

lemma hello_envelope_text:
  "stringify (envelope (sample_env st two_token_model) hello_request ''Hello!'') =
     ''{\"id\":\"chatcmpl-1700000000123\",\"object\":\"chat.completion\",\"created\":1700000000,\"model\":\"deepseek-chat\",\"choices\":[{\"index\":0,\"message\":{\"role\":\"assistant\",\"content\":\"Hello!\"},\"finishReason\":\"stop\"}]}''"
  by (simp add: stringify_def stringify_choice_def stringify_message_def envelope_def
        sample_env_def hello_request_def show_nat.simps quote_plain)

lemma hello_streamChat:
  "fst (streamChat (sample_env st two_token_model) hello_request fresh) =
     \<lparr>yielded = [stringify (envelope (sample_env st two_token_model) hello_request ''Hello!'')],
      raised = None\<rparr>"
  by (simp add: streamChat_nonempty userMessage_prompt Let_def hello_request_def
        sample_env_def two_token_model_def)

section \<open>Facts about the initialization steps\<close>
















section \<open>The streamed response\<close>

text \<open>
  C1. The claim: the response to \<^verbatim>\<open>POST /api/chat\<close> is a sequence of
  \<^verbatim>\<open>data: <chunk>\n\n\<close> frames ended by \<^verbatim>\<open>data: [DONE]\n\n\<close>, every token of the
  backend is forwarded as it arrives, and the chunk contents concatenate to the generated
  text. What the handler writes for a backend that delivers the two tokens \<^verbatim>\<open>Hel\<close>
  and \<^verbatim>\<open>lo!\<close>: a single data frame, written after the stream has completed, whose
  payload is the JSON envelope, and the end marker. The frames do end with the marker, but
  no token is forwarded on its own and the chunk contents do not concatenate to
  \<^verbatim>\<open>Hello!\<close>.
\<close>

theorem chat_handler_single_frame:
  "chunks (two_token_model (DeepSeekAgent None) ''Hello!'') = [''Hel'', ''lo!'']
   \<and> written (fst (chat_handler (sample_env down_store two_token_model) hello_request fresh)) =
       [''data: {\"id\":\"chatcmpl-1700000000123\",\"object\":\"chat.completion\",\"created\":1700000000,\"model\":\"deepseek-chat\",\"choices\":[{\"index\":0,\"message\":{\"role\":\"assistant\",\"content\":\"Hello!\"},\"finishReason\":\"stop\"}]}\<newline>\<newline>'',
        ''data: [DONE]\<newline>\<newline>'']
   \<and> concat (yielded (fst (streamChat (sample_env down_store two_token_model) hello_request
                                fresh))) \<noteq> ''Hello!''"
  by (simp add: chat_handler_reply hello_streamChat hello_envelope_text frame_def done_frame_def
        two_token_model_def)

text \<open>
  C7. For every successfully streamed request, the handler writes exactly one data frame
  and then the end marker. The frame carries the envelope with \<^verbatim>\<open>id\<close>,
  \<^verbatim>\<open>object\<close>, \<^verbatim>\<open>created\<close> in seconds (the millisecond clock divided by 1000),
  \<^verbatim>\<open>model\<close> (the requested one, or \<^verbatim>\<open>deepseek-chat\<close>) and a single choice with
  index 0, role \<^verbatim>\<open>assistant\<close>, finish reason \<^verbatim>\<open>stop\<close>, and as content the
  concatenation of the chunks the backend delivered for the prompt.
\<close>

theorem chat_handler_final_envelope:
  assumes "raised (fst (streamChat e request w)) = None"
  shows "written (fst (chat_handler e request w)) =
           [frame (stringify
              \<lparr>id_resp = ''chatcmpl-'' @ show_nat (now_id e),
               object = ''chat.completion'',
               created = now_created e div 1000,
               model_resp = (case model request of
                               None \<Rightarrow> ''deepseek-chat''
                             | Some m \<Rightarrow> if m = [] then ''deepseek-chat'' else m),
               choices = [\<lparr>index = 0,
                           message = \<lparr>role = ''assistant'',
                                      content = concat (chunks (chat_model e (DeepSeekAgent None)
                                                  (fst (userMessage e request w))))\<rparr>,
                           finishReason = Some ''stop''\<rparr>]\<rparr>),
            ''data: [DONE]\<newline>\<newline>'']
       \<and> ended (fst (chat_handler e request w))
       \<and> rethrown (fst (chat_handler e request w)) = None"
proof -
  have ne: "messages request \<noteq> []"
    using assms streamChat_empty_raises by blast
  show ?thesis
    using assms
    by (simp add: chat_handler_def streamChat_nonempty[OF ne] Let_def envelope_def done_frame_def
             split: option.splits prod.split)
qed

text \<open>The envelope for the two-token backend, as the text written to the client.\<close>

theorem chat_handler_final_envelope_witness:
  "raised (fst (streamChat (sample_env down_store two_token_model) hello_request fresh)) = None
   \<and> written (fst (chat_handler (sample_env down_store two_token_model) hello_request fresh)) =
       [''data: {\"id\":\"chatcmpl-1700000000123\",\"object\":\"chat.completion\",\"created\":1700000000,\"model\":\"deepseek-chat\",\"choices\":[{\"index\":0,\"message\":{\"role\":\"assistant\",\"content\":\"Hello!\"},\"finishReason\":\"stop\"}]}\<newline>\<newline>'',
        ''data: [DONE]\<newline>\<newline>'']"
proof -
  have ok: "raised (fst (streamChat (sample_env down_store two_token_model) hello_request fresh))
              = None"
    by (simp add: hello_streamChat)
  have "written (fst (chat_handler (sample_env down_store two_token_model) hello_request fresh)) =
       [frame (stringify (envelope (sample_env down_store two_token_model) hello_request ''Hello!'')),
        ''data: [DONE]\<newline>\<newline>'']"
    using chat_handler_final_envelope [OF ok]
    by (simp add: envelope_def userMessage_prompt hello_request_def sample_env_def
          two_token_model_def)
  then show ?thesis
    using ok by (simp add: hello_envelope_text frame_def)
qed

section \<open>Retrieval\<close>

text \<open>
  C2. The claim: with \<^verbatim>\<open>useRag\<close> true the limit passed to retrieval is clamped to
  [1,10]. What \<^verbatim>\<open>streamChat\<close> does: it issues one search, for the content of the last
  message, with \<^verbatim>\<open>request.ragLimit || 3\<close> as the limit: the \<^verbatim>\<open>ragLimit\<close> itself
  when it is present and not 0, and 3 when it is absent or 0. Nothing bounds the value.
\<close>

theorem streamChat_retrieval_limit:
  assumes "messages request \<noteq> []" and "useRag request = Some True"
  shows "searches (snd (streamChat e request w)) =
           searches w @ [(content (last (messages request)),
                          (case ragLimit request of
                             None \<Rightarrow> 3
                           | Some n \<Rightarrow> if n = 0 then 3 else n))]"
  using assms
  by (simp add: streamChat_nonempty userMessage_world ragLimit_or_3_def Let_def
           split: option.split)

text \<open>Limits 7, 0 and an absent limit give 7, 3 and 3.\<close>

theorem streamChat_retrieval_limit_witness:
  "searches (snd (streamChat (sample_env two_doc_store two_token_model)
                    (hello_request\<lparr>useRag := Some True, ragLimit := Some 7\<rparr>) fresh))
     = [(''Hello!'', 7)]
   \<and> searches (snd (streamChat (sample_env two_doc_store two_token_model)
                    (hello_request\<lparr>useRag := Some True, ragLimit := Some 0\<rparr>) fresh))
     = [(''Hello!'', 3)]
   \<and> searches (snd (streamChat (sample_env two_doc_store two_token_model)
                    (hello_request\<lparr>useRag := Some True\<rparr>) fresh))
     = [(''Hello!'', 3)]"
  using streamChat_retrieval_limit
    [of "hello_request\<lparr>useRag := Some True, ragLimit := Some 7\<rparr>"
        "sample_env two_doc_store two_token_model" fresh]
    streamChat_retrieval_limit
    [of "hello_request\<lparr>useRag := Some True, ragLimit := Some 0\<rparr>"
        "sample_env two_doc_store two_token_model" fresh]
    streamChat_retrieval_limit
    [of "hello_request\<lparr>useRag := Some True\<rparr>"
        "sample_env two_doc_store two_token_model" fresh]
  by (simp add: hello_request_def fresh_def)

text \<open>A \<^verbatim>\<open>ragLimit\<close> of 50 reaches the store as 50, not as 10.\<close>

theorem streamChat_ragLimit_50_counterexample:
  "map snd (searches (snd (streamChat (sample_env two_doc_store two_token_model)
                    (hello_request\<lparr>useRag := Some True, ragLimit := Some 50\<rparr>) fresh)))
     = [50]
   \<and> map snd (searches (snd (streamChat (sample_env two_doc_store two_token_model)
                    (hello_request\<lparr>useRag := Some True, ragLimit := Some 50\<rparr>) fresh)))
     \<noteq> [10]"
  by (simp add: streamChat_nonempty userMessage_world ragLimit_or_3_def Let_def
        hello_request_def fresh_def sample_env_def two_token_model_def)

text \<open>
  C3. The claim: every score is \<^verbatim>\<open>1 - distance\<close> and lies in [0,1], clamped when the
  distance is outside [0,1]. \<^verbatim>\<open>search\<close> computes \<^verbatim>\<open>1 - (distances[index] || 0)\<close>
  and nothing else: for a store that reports the distances 2 and 1/4 the scores are -1
  and 3/4, and the first is below 0, although the response schema of
  \<^verbatim>\<open>/api/documents/search\<close> declares the score between 0 and 1.
\<close>

theorem search_score_below_zero:
  "fst (search two_doc_store ''purring'' 3 None fresh) =
     Inr [\<lparr>document = \<lparr>doc_id = ''doc_1'', doc_content = ''Cats purr.'', doc_metadata = []\<rparr>,
           score = - 1\<rparr>,
          \<lparr>document = \<lparr>doc_id = ''doc_2'', doc_content = ''Dogs bark.'', doc_metadata = []\<rparr>,
           score = 3 / 4\<rparr>]
   \<and> \<not> (0::real) \<le> - 1"
  by (simp add: search_def two_doc_store_def first_or_empty_def List.map_filter_def
        to_result_def elem_at_def Let_def)

text \<open>
  C6. When the store fails a search (\<^verbatim>\<open>search\<close> throws
  \<^verbatim>\<open>Search failed: ...\<close>), \<^verbatim>\<open>retrieveContext\<close> returns the empty context. A request
  with \<^verbatim>\<open>useRag\<close> whose retrieval fails so is answered exactly like the same request
  without \<^verbatim>\<open>useRag\<close>: the prompt is the bare question, and the generator throws only
  if the chat backend fails.
\<close>

theorem retrieveContext_store_failure:
  assumes "store e query limit None = Inl error"
  shows "fst (search (store e) query limit None w)
           = Inl (Error (''Search failed: '' @ error_message error))
       \<and> fst (retrieveContext (store e) query limit w) = []
       \<and> (messages request \<noteq> [] \<and> useRag request = Some True
            \<and> content (last (messages request)) = query \<and> ragLimit_or_3 request = limit
          \<longrightarrow> fst (userMessage e request w) = query
            \<and> fst (streamChat e request w)
                = fst (streamChat e (request\<lparr>useRag := Some False\<rparr>) w)
            \<and> (raised (fst (streamChat e request w)) = None
                 \<longleftrightarrow> failure (chat_model e (DeepSeekAgent None) query) = None))"
proof -
  have s: "fst (search (store e) query limit None w)
           = Inl (Error (''Search failed: '' @ error_message error))"
    using assms by (simp add: search_store_failure)
  have r: "fst (retrieveContext (store e) query limit w) = []"
    using s by (cases "search (store e) query limit None w")
      (auto simp: retrieveContext_def split: sum.split)
  have o: "fst (userMessage e request w) = query
            \<and> fst (streamChat e request w)
                = fst (streamChat e (request\<lparr>useRag := Some False\<rparr>) w)
            \<and> (raised (fst (streamChat e request w)) = None
                 \<longleftrightarrow> failure (chat_model e (DeepSeekAgent None) query) = None)"
    if a: "messages request \<noteq> []" "useRag request = Some True"
          "content (last (messages request)) = query" "ragLimit_or_3 request = limit"
  proof -
    have u: "fst (userMessage e request w) = query"
      using a r by (simp add: userMessage_prompt buildRagPrompt_def)
    have u': "fst (userMessage e (request\<lparr>useRag := Some False\<rparr>) w) = query"
      using a by (simp add: userMessage_prompt)
    have m': "messages (request\<lparr>useRag := Some False\<rparr>) \<noteq> []"
      using a by simp
    show ?thesis
      using u u' by (simp add: streamChat_nonempty[OF a(1)] streamChat_nonempty[OF m']
                       Let_def envelope_def split: option.split)
  qed
  have o': "messages request \<noteq> [] \<and> useRag request = Some True
            \<and> content (last (messages request)) = query \<and> ragLimit_or_3 request = limit
          \<longrightarrow> fst (userMessage e request w) = query
            \<and> fst (streamChat e request w)
                = fst (streamChat e (request\<lparr>useRag := Some False\<rparr>) w)
            \<and> (raised (fst (streamChat e request w)) = None
                 \<longleftrightarrow> failure (chat_model e (DeepSeekAgent None) query) = None)"
  proof (intro impI, elim conjE)
    assume "messages request \<noteq> []" "useRag request = Some True"
      "content (last (messages request)) = query" "ragLimit_or_3 request = limit"
    then show "fst (userMessage e request w) = query
            \<and> fst (streamChat e request w)
                = fst (streamChat e (request\<lparr>useRag := Some False\<rparr>) w)
            \<and> (raised (fst (streamChat e request w)) = None
                 \<longleftrightarrow> failure (chat_model e (DeepSeekAgent None) query) = None)"
      by (rule o)
  qed
  show ?thesis
    by (rule conjI[OF s conjI[OF r o']])
qed

text \<open>A store that cannot be reached: the context is empty and the chat still answers.\<close>

theorem retrieveContext_store_failure_witness:
  "store (sample_env down_store two_token_model) ''Hello!'' 3 None = Inl (Error ''fetch failed'')
   \<and> fst (retrieveContext down_store ''Hello!'' 3 fresh) = []
   \<and> fst (userMessage (sample_env down_store two_token_model)
             (hello_request\<lparr>useRag := Some True\<rparr>) fresh) = ''Hello!''
   \<and> raised (fst (streamChat (sample_env down_store two_token_model)
                    (hello_request\<lparr>useRag := Some True\<rparr>) fresh)) = None"
  using retrieveContext_store_failure
    [of "sample_env down_store two_token_model" "''Hello!''" 3 "Error ''fetch failed''"
        fresh "hello_request\<lparr>useRag := Some True\<rparr>"]
  by (auto simp: sample_defs ragLimit_or_3_def)

section \<open>Prompt assembly\<close>

text \<open>
  C4. For every question, building the RAG prompt from an empty retrieved context gives
  the question back unchanged: an empty result sequence formats to the empty context, and
  \<^verbatim>\<open>buildRagPrompt\<close> returns the user message itself for the empty context.
\<close>

theorem buildRagPrompt_empty_context:
  "format_context [] = [] \<and> buildRagPrompt q (format_context []) = q \<and> buildRagPrompt q [] = q"
  by (simp add: format_context_def buildRagPrompt_def)

text \<open>
  C5. For every non-empty sequence of results, the prompt is the fixed heading, the
  blocks joined by the separator \<^verbatim>\<open>\n\n---\n\n\<close>, and the fixed instruction ending with
  the question. The \<open>i\<close>-th block is \<^verbatim>\<open>[Document i+1]\<close>, a line break and the content
  of the \<open>i\<close>-th result, so the contents appear verbatim and in the given order; each
  block and the fallback sentence occur in the prompt. The prompt is a function of the
  question and the results alone.
\<close>

theorem buildRagPrompt_nonempty_context:
  assumes "results \<noteq> []"
  shows "buildRagPrompt q (format_context results) =
           ''Context information from documents:\<newline>''
           @ join (map context_part (enumerate 0 results)) ''\<newline>\<newline>---\<newline>\<newline>''
           @ ''\<newline>\<newline>---\<newline>\<newline>Based on the context above, please answer the following question. If the context doesn't contain relevant information, say \"I don't have enough information in your documents to answer this question.\"\<newline>\<newline>Question: ''
           @ q
         \<and> map context_part (enumerate 0 results) =
             map (\<lambda>i. ''[Document '' @ show_nat (i + 1) @ '']\<newline>''
                        @ doc_content (document (results ! i))) [0..<length results]
         \<and> (\<forall>i < length results.
               sublist (''[Document '' @ show_nat (i + 1) @ '']\<newline>''
                          @ doc_content (document (results ! i)))
                 (buildRagPrompt q (format_context results)))
         \<and> sublist ''I don't have enough information in your documents to answer this question.''
               (buildRagPrompt q (format_context results))"
proof -
  let ?parts = "map context_part (enumerate 0 results)"
  let ?block = "\<lambda>i. ''[Document '' @ show_nat (i + 1) @ '']\<newline>''
                        @ doc_content (document (results ! i))"
  have ctx: "format_context results = join ?parts separator"
    using assms by (simp add: format_context_def)
  have ne: "format_context results \<noteq> []"
    using assms by (rule format_context_nonempty)
  have prompt: "buildRagPrompt q (format_context results) =
           ''Context information from documents:\<newline>''
           @ join ?parts ''\<newline>\<newline>---\<newline>\<newline>''
           @ ''\<newline>\<newline>---\<newline>\<newline>Based on the context above, please answer the following question. If the context doesn't contain relevant information, say \"I don't have enough information in your documents to answer this question.\"\<newline>\<newline>Question: ''
           @ q"
    using ne by (simp add: buildRagPrompt_def ctx separator_def fallback_sentence_def)
  have parts: "?parts = map ?block [0..<length results]"
    by (rule nth_equalityI) (simp_all add: context_part_def nth_enumerate_eq)
  have blocks: "sublist (?block i) (buildRagPrompt q (format_context results))"
    if "i < length results" for i
  proof -
    have "?block i \<in> set ?parts"
      using that unfolding parts by simp
    then have "sublist (?block i) (join ?parts separator)"
      by (rule sublist_join)
    then obtain us vs where "join ?parts separator = us @ ?block i @ vs"
      by (auto simp: sublist_def)
    then have "buildRagPrompt q (format_context results) =
        (''Context information from documents:\<newline>'' @ us) @ ?block i @
        (vs @ ''\<newline>\<newline>---\<newline>\<newline>Based on the context above, please answer the following question. If the context doesn't contain relevant information, say \"I don't have enough information in your documents to answer this question.\"\<newline>\<newline>Question: '' @ q)"
      using prompt by (simp add: separator_def)
    then show ?thesis
      unfolding sublist_def by blast
  qed
  have "buildRagPrompt q (format_context results) =
      (''Context information from documents:\<newline>'' @ format_context results
        @ ''\<newline>\<newline>---\<newline>\<newline>Based on the context above, please answer the following question. If the context doesn't contain relevant information, say \"'')
      @ ''I don't have enough information in your documents to answer this question.''
      @ (''\"\<newline>\<newline>Question: '' @ q)"
    using ne by (simp add: buildRagPrompt_def fallback_sentence_def)
  then have fallback: "sublist ''I don't have enough information in your documents to answer this question.''
               (buildRagPrompt q (format_context results))"
    unfolding sublist_def by blast
  from prompt parts blocks fallback show ?thesis
    by blast
qed

text \<open>The prompt for two retrieved documents.\<close>

theorem buildRagPrompt_nonempty_context_witness:
  "two_results \<noteq> []
   \<and> buildRagPrompt ''Who purrs?'' (format_context two_results) =
       ''Context information from documents:\<newline>[Document 1]\<newline>Cats purr.\<newline>\<newline>---\<newline>\<newline>[Document 2]\<newline>Dogs bark.\<newline>\<newline>---\<newline>\<newline>Based on the context above, please answer the following question. If the context doesn't contain relevant information, say \"I don't have enough information in your documents to answer this question.\"\<newline>\<newline>Question: Who purrs?''"
  using buildRagPrompt_nonempty_context [of two_results "''Who purrs?''"]
  by (simp add: two_results_def context_part_def show_nat.simps)

section \<open>Failures of the chat backend\<close>

text \<open>
  C8. The claim: an upstream error is wrapped into \<^verbatim>\<open>LLM service error: <detail>\<close>.
  What the code does when the backend fails while streaming: the agent wraps the error as
  \<^verbatim>\<open>DeepSeek API error: <detail>\<close> and \<^verbatim>\<open>streamChat\<close> wraps that as
  \<^verbatim>\<open>LLM streaming error: DeepSeek API error: <detail>\<close>. The generator yields nothing
  and throws this error, the handler writes no frame and no end marker and lets the error
  through, and the backend has been called once.
\<close>

theorem streamChat_backend_failure:
  assumes "messages request \<noteq> []"
    and "failure (chat_model e (DeepSeekAgent None) (fst (userMessage e request w))) = Some error"
  shows "fst (streamChat e request w) =
           \<lparr>yielded = [],
            raised = Some (Error (''LLM streaming error: DeepSeek API error: ''
                                  @ error_message error))\<rparr>
       \<and> fst (chat_handler e request w) =
           \<lparr>written = [], ended = False,
            rethrown = Some (Error (''LLM streaming error: DeepSeek API error: ''
                                    @ error_message error))\<rparr>
       \<and> model_streams (snd (chat_handler e request w)) =
           model_streams w @ [(DeepSeekAgent None, fst (userMessage e request w))]"
  using assms
  by (simp add: chat_handler_def streamChat_nonempty Let_def userMessage_world
           split: prod.split)

text \<open>A backend that times out when the stream is opened.\<close>

theorem streamChat_backend_failure_witness:
  "messages hello_request \<noteq> []
   \<and> fst (chat_handler (sample_env down_store timeout_model) hello_request fresh) =
       \<lparr>written = [], ended = False,
        rethrown = Some (Error ''LLM streaming error: DeepSeek API error: timeout'')\<rparr>
   \<and> model_streams (snd (chat_handler (sample_env down_store timeout_model) hello_request fresh))
       = [(''You are a helpful AI assistant.'', ''Hello!'')]"
  using streamChat_backend_failure
    [of hello_request "sample_env down_store timeout_model" fresh "Error ''timeout''"]
  by (simp add: userMessage_prompt hello_request_def sample_env_def timeout_model_def fresh_def
        DeepSeekAgent_def)

text \<open>The error text for that backend is not \<^verbatim>\<open>LLM service error: timeout\<close>.\<close>

theorem streamChat_error_text_counterexample:
  "raised (fst (streamChat (sample_env down_store timeout_model) hello_request fresh))
     = Some (Error ''LLM streaming error: DeepSeek API error: timeout'')
   \<and> raised (fst (streamChat (sample_env down_store timeout_model) hello_request fresh))
     \<noteq> Some (Error ''LLM service error: timeout'')"
  by (simp add: streamChat_nonempty userMessage_prompt Let_def hello_request_def
        sample_env_def timeout_model_def)

section \<open>Concurrent first use of the store\<close>




section \<open>Conversation history\<close>

text \<open>
  C10. Two requests with non-empty message lists that agree on the content of the last
  message and on \<^verbatim>\<open>useRag\<close>, \<^verbatim>\<open>ragLimit\<close> and \<^verbatim>\<open>model\<close> are treated alike by
  \<^verbatim>\<open>streamChat\<close>: the same prompt, the same searches and backend calls, the same
  yielded chunks or thrown error. The earlier messages are never read.
\<close>

theorem streamChat_ignores_history:
  assumes "messages r1 \<noteq> []" and "messages r2 \<noteq> []"
    and "content (last (messages r1)) = content (last (messages r2))"
    and "useRag r1 = useRag r2" and "ragLimit r1 = ragLimit r2" and "model r1 = model r2"
  shows "streamChat e r1 w = streamChat e r2 w
       \<and> userMessage e r1 w = userMessage e r2 w"
proof -
  have l: "ragLimit_or_3 r1 = ragLimit_or_3 r2"
    using assms by (simp add: ragLimit_or_3_def)
  have u: "userMessage e r1 w = userMessage e r2 w"
    using assms l by (simp add: prod_eq_iff userMessage_prompt userMessage_world)
  have v: "envelope e r1 t = envelope e r2 t" for t
    using assms by (simp add: envelope_def)
  show ?thesis
    using u v by (simp add: streamChat_nonempty[OF assms(1)] streamChat_nonempty[OF assms(2)]
                     Let_def split: option.split)
qed

text \<open>A request with two earlier messages and one without them.\<close>

theorem streamChat_ignores_history_witness:
  "messages hello_request \<noteq> messages followup_request
   \<and> streamChat (sample_env two_doc_store two_token_model) hello_request fresh
       = streamChat (sample_env two_doc_store two_token_model) followup_request fresh
   \<and> model_streams (snd (streamChat (sample_env two_doc_store two_token_model)
                            followup_request fresh))
       = [(''You are a helpful AI assistant.'', ''Hello!'')]"
proof -
  have "streamChat (sample_env two_doc_store two_token_model) hello_request fresh
       = streamChat (sample_env two_doc_store two_token_model) followup_request fresh"
    using streamChat_ignores_history
      [of hello_request followup_request "sample_env two_doc_store two_token_model" fresh]
    by (simp add: hello_request_def followup_request_def)
  moreover have "model_streams (snd (streamChat (sample_env two_doc_store two_token_model)
                            followup_request fresh))
       = [(''You are a helpful AI assistant.'', ''Hello!'')]"
    by (simp add: streamChat_nonempty userMessage_world userMessage_prompt Let_def
          followup_request_def fresh_def sample_env_def two_token_model_def DeepSeekAgent_def)
  moreover have "messages hello_request \<noteq> messages followup_request"
    by (simp add: hello_request_def followup_request_def)
  ultimately show ?thesis by simp
qed

end
